theory Spec2Isabelle
  imports Complex_Main "HOL-Library.Word" "HOL-Library.Signed_Division"
begin

section \<open>Data model of \<^verbatim>\<open>main.go\<close>\<close>

text \<open>
  The structs of \<^verbatim>\<open>main.go\<close> become records with the source's field names.
  Go's \<^verbatim>\<open>float64\<close> fields hold what \<^verbatim>\<open>encoding/json\<close> decoded from a JSON
  number, which is always a finite value; they are modelled by the real number they
  denote. \<^verbatim>\<open>int64\<close> is \<open>64 word\<close>, read as two's complement by \<open>sint\<close>.
  A \<^verbatim>\<open>map[string]string\<close> is a partial function; the nil map is the empty one.
\<close>

type_synonym int64 = "64 word"

record ClientCallInfo =
  Name :: string
  EntryType :: string
  StartTime :: real
  EndTime :: real
  InitiatorType :: string

text \<open>
  \<^verbatim>\<open>RequestInfo\<close> and \<^verbatim>\<open>ResponseInfo\<close> both have fields \<^verbatim>\<open>Headers\<close> and
  \<^verbatim>\<open>ContentLength\<close>; the ones of \<^verbatim>\<open>ResponseInfo\<close> carry the prefix \<open>Resp\<close> here.
\<close>

record RequestInfo =
  Method :: string
  URI :: string
  Proto :: string
  Headers :: "string \<rightharpoonup> string"
  Host :: string
  RemoteAddr :: string
  ContentLength :: int64

record ResponseInfo =
  RespHeaders :: "string \<rightharpoonup> string"
  RespContentLength :: int64
  StatusCode :: int

text \<open>
  A \<^verbatim>\<open>time.Time\<close> is modelled by its instant: the number of nanoseconds since the
  Unix epoch, as an unbounded integer (Go's \<^verbatim>\<open>Time\<close> covers far more than the
  range of an \<^verbatim>\<open>int64\<close> count of nanoseconds). \<^verbatim>\<open>t.UnixNano()\<close> is that count
  reduced to 64 bits, and \<^verbatim>\<open>time.Unix(0, nsec)\<close> is the instant \<^verbatim>\<open>nsec\<close>
  nanoseconds after the epoch.
\<close>

type_synonym Time = int

definition zeroTime :: Time where
  "zeroTime = - 62135596800 * 1000000000"

definition UnixNano :: "Time \<Rightarrow> int64" where
  "UnixNano t = word_of_int t"

definition Unix0 :: "int64 \<Rightarrow> Time" where
  "Unix0 nsec = sint nsec"

record ServerEvent =
  Request :: RequestInfo
  Response :: ResponseInfo
  Route :: string
  User :: string
  ServerRecv :: Time
  ServerSend :: Time

definition zeroRequestInfo :: RequestInfo where
  "zeroRequestInfo = \<lparr>Method = [], URI = [], Proto = [], Headers = Map.empty,
     Host = [], RemoteAddr = [], ContentLength = 0\<rparr>"

definition zeroResponseInfo :: ResponseInfo where
  "zeroResponseInfo = \<lparr>RespHeaders = Map.empty, RespContentLength = 0, StatusCode = 0\<rparr>"

text \<open>\<^verbatim>\<open>NewServerEvent\<close> returns \<^verbatim>\<open>&ServerEvent{}\<close>: every field has its zero value.\<close>

definition NewServerEvent :: ServerEvent where
  "NewServerEvent = \<lparr>Request = zeroRequestInfo, Response = zeroResponseInfo,
     Route = [], User = [], ServerRecv = zeroTime, ServerSend = zeroTime\<rparr>"

text \<open>The \<^verbatim>\<open>TimespanEvent\<close> methods \<^verbatim>\<open>Start\<close> and \<^verbatim>\<open>End\<close> of \<^verbatim>\<open>ServerEvent\<close>.\<close>

definition Start :: "ServerEvent \<Rightarrow> Time" where
  "Start e = ServerRecv e"

definition End :: "ServerEvent \<Rightarrow> Time" where
  "End e = ServerSend e"

section \<open>Identifiers\<close>

text \<open>
  \<^verbatim>\<open>appdash.SpanID\<close> is a triple of 64-bit identifiers. Identifiers come from the
  library's random generator; the model takes the sequence of values it returns as a
  parameter \<open>gen\<close> and threads the number of identifiers drawn so far.
  \<^verbatim>\<open>NewRootSpanID\<close> draws a trace and a span identifier and leaves the parent zero;
  \<^verbatim>\<open>NewSpanID(parent)\<close> keeps the parent's trace, draws a span identifier and
  records the parent's span identifier as its parent.
\<close>

type_synonym ID = "64 word"

record SpanID =
  Trace :: ID
  Span :: ID
  Parent :: ID

definition generateID :: "(nat \<Rightarrow> ID) \<Rightarrow> nat \<Rightarrow> ID \<times> nat" where
  "generateID gen n = (gen n, Suc n)"

definition NewRootSpanID :: "(nat \<Rightarrow> ID) \<Rightarrow> nat \<Rightarrow> SpanID \<times> nat" where
  "NewRootSpanID gen n =
     (let (tr, n1) = generateID gen n;
          (sp, n2) = generateID gen n1
      in (\<lparr>Trace = tr, Span = sp, Parent = 0\<rparr>, n2))"

definition NewSpanID :: "(nat \<Rightarrow> ID) \<Rightarrow> SpanID \<Rightarrow> nat \<Rightarrow> SpanID \<times> nat" where
  "NewSpanID gen parent n =
     (let (sp, n1) = generateID gen n
      in (\<lparr>Trace = Trace parent, Span = sp, Parent = Span parent\<rparr>, n1))"

section \<open>Integer arithmetic of the handler\<close>

text \<open>
  \<^verbatim>\<open>int64(duration)\<close> drops the fraction of a \<^verbatim>\<open>float64\<close>, rounding towards zero.
  When the result does not fit in an \<^verbatim>\<open>int64\<close> the Go specification leaves the
  value to the implementation; the parameter \<open>oor\<close> gives it.
\<close>

definition truncate_toward_zero :: "real \<Rightarrow> int" where
  "truncate_toward_zero d = (if 0 \<le> d then \<lfloor>d\<rfloor> else \<lceil>d\<rceil>)"

definition int64_of_float64 :: "(real \<Rightarrow> int64) \<Rightarrow> real \<Rightarrow> int64" where
  "int64_of_float64 oor d =
     (if - (2 ^ 63) \<le> truncate_toward_zero d \<and> truncate_toward_zero d < 2 ^ 63
      then word_of_int (truncate_toward_zero d) else oor d)"

text \<open>Go's \<^verbatim>\<open>/\<close> on \<^verbatim>\<open>int64\<close> truncates towards zero.\<close>

definition int64_div :: "int64 \<Rightarrow> int64 \<Rightarrow> int64" where
  "int64_div a b = word_of_int (sint a sdiv sint b)"

text \<open>
  Lines 307 to 309: \<^verbatim>\<open>c := int64(duration)\<close> and
  \<^verbatim>\<open>time.Unix(0, ((startTime.UnixNano()/1000000)+c)*1000000)\<close>, in 64-bit arithmetic.
\<close>

definition sendTime :: "(real \<Rightarrow> int64) \<Rightarrow> Time \<Rightarrow> real \<Rightarrow> Time" where
  "sendTime oor startTime duration =
     (let c = int64_of_float64 oor duration
      in Unix0 ((int64_div (UnixNano startTime) 1000000 + c) * 1000000))"

section \<open>The handler \<^verbatim>\<open>Endpoint\<close>\<close>

text \<open>
  What the handler gives to the recorder for one entry: the span identifier of
  \<^verbatim>\<open>appdash.NewRecorder\<close>, the name of \<^verbatim>\<open>rec.Name\<close> and the event of
  \<^verbatim>\<open>rec.Event\<close>.
\<close>

record Recorded =
  RecSpanID :: SpanID
  RecName :: string
  RecEvent :: ServerEvent

text \<open>Lines 292 to 309: the event built in one iteration of the loop.\<close>

definition entryEvent :: "(real \<Rightarrow> int64) \<Rightarrow> Time \<Rightarrow> ClientCallInfo \<Rightarrow> ServerEvent" where
  "entryEvent oor startTime ti =
     (let e = NewServerEvent;
          e = e\<lparr>ServerRecv := startTime\<rparr>;
          e = e\<lparr>Route := InitiatorType ti\<rparr>;
          e = e\<lparr>User := ''u''\<rparr>;
          e = e\<lparr>Response := zeroResponseInfo\<lparr>StatusCode := 200\<rparr>\<rparr>;
          e = e\<lparr>Request := zeroRequestInfo\<lparr>Method := ''GET'', Proto := ''HTTP/1.1'',
                 URI := Name ti, Host := ''example.com'',
                 Headers := [''X-Req-Header'' \<mapsto> ''a'']\<rparr>\<rparr>;
          duration = EndTime ti
      in e\<lparr>ServerSend := sendTime oor startTime duration\<rparr>)"

text \<open>
  The loop of lines 291 to 315 over the decoded slice, in input order; \<open>n\<close> counts the
  identifiers drawn so far.
\<close>

fun Endpoint_loop ::
  "(nat \<Rightarrow> ID) \<Rightarrow> (real \<Rightarrow> int64) \<Rightarrow> SpanID \<Rightarrow> Time \<Rightarrow> nat \<Rightarrow> ClientCallInfo list \<Rightarrow> Recorded list"
where
  "Endpoint_loop gen oor traceID startTime n [] = []"
| "Endpoint_loop gen oor traceID startTime n (ti # rest) =
     (let e = entryEvent oor startTime ti;
          (traceIDto, n1) = NewSpanID gen traceID n
      in \<lparr>RecSpanID = traceIDto, RecName = Name ti, RecEvent = e\<rparr>
           # Endpoint_loop gen oor traceID startTime n1 rest)"

text \<open>
  The outcome of \<^verbatim>\<open>decoder.Decode(&t)\<close> is the pair of the slice \<open>t\<close> as the decoder
  left it and the error it returned, if any. The handler logs the error and goes on.
  Its result is the lines logged, the root identifier it allocated and what it recorded.
\<close>

record EndpointResult =
  logged :: "string list"
  traceID :: SpanID
  recorded :: "Recorded list"

definition Endpoint ::
  "(nat \<Rightarrow> ID) \<Rightarrow> (real \<Rightarrow> int64) \<Rightarrow> ClientCallInfo list \<times> string option \<Rightarrow> Time \<Rightarrow> EndpointResult"
where
  "Endpoint gen oor decoded startTime =
     (let (rootID, n) = NewRootSpanID gen 0;
          (t, err) = decoded;
          lg = (case err of None \<Rightarrow> [] | Some msg \<Rightarrow> [''erooror '' @ msg])
      in \<lparr>logged = lg, traceID = rootID,
          recorded = Endpoint_loop gen oor rootID startTime n t\<rparr>)"

section \<open>Ranges and example inputs\<close>

text \<open>
  The 64-bit arithmetic of \<open>sendTime\<close> agrees with integer arithmetic when nothing wraps
  around: the clock reads a time from 1970 on whose nanosecond count fits an \<^verbatim>\<open>int64\<close>
  (up to the year 2262), and the sum of milliseconds, scaled to nanoseconds, fits as well.
\<close>

definition fitsInt64 :: "int \<Rightarrow> bool" where
  "fitsInt64 k = (- (2 ^ 63) \<le> k \<and> k < 2 ^ 63)"

definition sendFits :: "Time \<Rightarrow> real \<Rightarrow> bool" where
  "sendFits startTime d =
     (0 \<le> startTime \<and> fitsInt64 startTime \<and>
      fitsInt64 ((startTime div 1000000 + truncate_toward_zero d) * 1000000))"


text \<open>
  The specification calls an entry with an empty name a \<^verbatim>\<open>MalformedEntry\<close>. The handler
  has no such test; the predicate only serves to say what is recorded for such entries.
\<close>

definition MalformedEntry :: "ClientCallInfo \<Rightarrow> bool" where
  "MalformedEntry ti = (Name ti = [])"

text \<open>
  Concrete inputs: a generator that returns 1, 2, 3, ...; the out-of-range conversion
  result of amd64 (the smallest \<^verbatim>\<open>int64\<close>); entries as the page's script posts them;
  and a clock reading of 1000 ms after the epoch.
\<close>

definition exampleGen :: "nat \<Rightarrow> ID" where
  "exampleGen n = of_nat n + 1"

definition exampleOor :: "real \<Rightarrow> int64" where
  "exampleOor d = - (2 ^ 63)"

definition exampleEntry :: "string \<Rightarrow> real \<Rightarrow> string \<Rightarrow> ClientCallInfo" where
  "exampleEntry nm dur ini =
     \<lparr>Name = nm, EntryType = ''resource'', StartTime = 0, EndTime = dur, InitiatorType = ini\<rparr>"

definition exampleStart :: Time where
  "exampleStart = 1000 * 1000000"

text \<open>The batch of the specification's scenario: a script and an entry without a name.\<close>

definition scenarioBatch :: "ClientCallInfo list" where
  "scenarioBatch = [exampleEntry ''a.js'' 150 ''script'', exampleEntry [] 10 ''img'']"

text \<open>A batch whose only entry has no name.\<close>

definition badBatch :: "ClientCallInfo list" where
  "badBatch = [exampleEntry [] 10 ''img'']"

text \<open>
  What \<^verbatim>\<open>encoding/json\<close> leaves behind for the body
  \<^verbatim>\<open>[{"name":"a.js","endTime":"x","initiatorType":"script"}]\<close>: a string cannot be
  stored in a \<^verbatim>\<open>float64\<close> field, so the decoder skips that field, completes the rest
  of the value and returns an \<^verbatim>\<open>UnmarshalTypeError\<close>.
\<close>

definition partialBatch :: "ClientCallInfo list" where
  "partialBatch = [\<lparr>Name = ''a.js'', EntryType = [], StartTime = 0, EndTime = 0,
     InitiatorType = ''script''\<rparr>]"

definition typeError :: string where
  "typeError = ''json: cannot unmarshal string into Go value of type float64''"



text \<open>
  A duration of \<open>10 ^ 13\<close> ms (a JSON number that \<^verbatim>\<open>float64\<close> holds exactly), at a
  clock reading of November 2023.
\<close>

definition hugeBatch :: "ClientCallInfo list" where
  "hugeBatch = [exampleEntry ''c.png'' 10000000000000 ''img'']"

definition presentStart :: Time where
  "presentStart = 1700000000000 * 1000000"

text \<open>A clock reading 500 ns after a whole millisecond, and a duration of half a millisecond.\<close>

definition subMilliStart :: Time where
  "subMilliStart = 1000 * 1000000 + 500"

definition subMilliBatch :: "ClientCallInfo list" where
  "subMilliBatch = [exampleEntry ''d.js'' (1 / 2) ''script'']"

section \<open>The evicting store\<close>

text \<open>
  \<^verbatim>\<open>main\<close> (lines 106 to 110) only constructs the store: an
  \<^verbatim>\<open>appdash.RecentStore\<close> with \<^verbatim>\<open>MinEvictAge\<close> of 300 s over an
  \<^verbatim>\<open>appdash.MemoryStore\<close>. The code of both lies outside the sources, so the store is
  modelled from section 4.4 of the specification, as a sequential state machine.
\<close>

text \<open>
  Modelled from the spec: the \<^verbatim>\<open>StoreEntry\<close> of section 3, a trace's spans together
  with the time \<^verbatim>\<open>insertedAt\<close>; the store maps a trace identifier to its bucket.
\<close>

record Bucket =
  spans :: "Recorded list"
  insertedAt :: Time

type_synonym Store = "ID \<rightharpoonup> Bucket"

text \<open>
  Modelled from the spec: \<^verbatim>\<open>Collect(span)\<close> of section 4.4 (the store's code is not in
  the sources), named \<open>Collect_span\<close> here, as \<open>Collect\<close> is the set comprehension of
  HOL. It inserts or appends the span into the bucket of its trace identifier and
  refreshes \<^verbatim>\<open>insertedAt\<close> of that bucket to now.
\<close>

definition Collect_span :: "Time \<Rightarrow> Recorded \<Rightarrow> Store \<Rightarrow> Store" where
  "Collect_span now sp st =
     (let k = Trace (RecSpanID sp)
      in st(k \<mapsto> \<lparr>spans = (case st k of None \<Rightarrow> [] | Some b \<Rightarrow> spans b) @ [sp],
                   insertedAt = now\<rparr>))"

text \<open>
  Modelled from the spec: a bucket is older than \<^verbatim>\<open>minAge\<close> relative to \<^verbatim>\<open>now\<close>
  (section 4.4; the store's code is not in the sources). Times and ages are nanoseconds.
\<close>

definition olderThan :: "Time \<Rightarrow> int \<Rightarrow> Bucket \<Rightarrow> bool" where
  "olderThan now minAge b = (minAge < now - insertedAt b)"

text \<open>
  Modelled from the spec: \<^verbatim>\<open>Evict(now, minAge)\<close> of section 4.4 (the store's code is not
  in the sources). It removes every bucket whose \<^verbatim>\<open>insertedAt\<close> is older than
  \<^verbatim>\<open>minAge\<close> relative to \<^verbatim>\<open>now\<close>, a whole trace at a time.
\<close>

definition Evict :: "Time \<Rightarrow> int \<Rightarrow> Store \<Rightarrow> Store" where
  "Evict now minAge st =
     (\<lambda>k. case st k of None \<Rightarrow> None
          | Some b \<Rightarrow> if olderThan now minAge b then None else Some b)"

text \<open>
  Modelled from the spec: \<^verbatim>\<open>Traces()\<close> of section 4.4 (the store's code is not in the
  sources), the snapshot of all live traces: the spans of every bucket.
\<close>

definition Traces :: "Store \<Rightarrow> (ID \<rightharpoonup> Recorded list)" where
  "Traces st = (\<lambda>k. map_option spans (st k))"

text \<open>
  Modelled from the spec: the store is mutated only by \<^verbatim>\<open>Collect\<close> and \<^verbatim>\<open>Evict\<close>
  (section 3); a history of the store is a list of such operations, applied in order.
\<close>

datatype StoreOp = OpCollect Time Recorded | OpEvict Time int

fun applyOp :: "StoreOp \<Rightarrow> Store \<Rightarrow> Store" where
  "applyOp (OpCollect now sp) st = Collect_span now sp st"
| "applyOp (OpEvict now minAge) st = Evict now minAge st"

fun runOps :: "StoreOp list \<Rightarrow> Store \<Rightarrow> Store" where
  "runOps [] st = st"
| "runOps (x # xs) st = runOps xs (applyOp x st)"

fun collectsFor :: "ID \<Rightarrow> StoreOp \<Rightarrow> bool" where
  "collectsFor k (OpCollect now sp) = (Trace (RecSpanID sp) = k)"
| "collectsFor k (OpEvict now minAge) = False"

text \<open>An example span of a given trace, and a number of seconds in nanoseconds.\<close>

definition storeSpan :: "ID \<Rightarrow> ID \<Rightarrow> Recorded" where
  "storeSpan tr sp = \<lparr>RecSpanID = \<lparr>Trace = tr, Span = sp, Parent = 1\<rparr>, RecName = ''a.js'',
     RecEvent = entryEvent exampleOor exampleStart (exampleEntry ''a.js'' 150 ''script'')\<rparr>"

definition seconds :: "int \<Rightarrow> int" where
  "seconds n = n * 1000000000"

section \<open>Properties of the handler\<close>

subsection \<open>The loop\<close>

lemma Endpoint_recorded:
  "recorded (Endpoint gen oor (t, err) startTime) =
     Endpoint_loop gen oor \<lparr>Trace = gen 0, Span = gen 1, Parent = 0\<rparr> startTime 2 t"
  by (simp add: Endpoint_def NewRootSpanID_def generateID_def numeral_2_eq_2)

lemma Endpoint_loop_events:
  "map (\<lambda>r. g (RecEvent r)) (Endpoint_loop gen oor rid startTime n t)
     = map (\<lambda>ti. g (entryEvent oor startTime ti)) t"
  by (induction t arbitrary: n) (simp_all add: NewSpanID_def generateID_def)

lemma Endpoint_loop_length:
  "length (Endpoint_loop gen oor rid startTime n t) = length t"
  by (induction t arbitrary: n) (simp_all add: NewSpanID_def generateID_def)

lemma Endpoint_loop_names_uris:
  "map (\<lambda>r. (RecName r, URI (Request (RecEvent r)))) (Endpoint_loop gen oor rid startTime n t)
     = map (\<lambda>ti. (Name ti, Name ti)) t"
  by (induction t arbitrary: n)
     (simp_all add: NewSpanID_def generateID_def entryEvent_def zeroRequestInfo_def)

lemma Endpoint_loop_ids:
  "map RecSpanID (Endpoint_loop gen oor rid startTime n t)
     = map (\<lambda>i. \<lparr>Trace = Trace rid, Span = gen (n + i), Parent = Span rid\<rparr>) [0..<length t]"
proof (induction t arbitrary: n)
  case Nil
  show ?case by simp
next
  case (Cons ti rest)
  have "[0..<length (ti # rest)] = 0 # map Suc [0..<length rest]"
    by (simp add: upt_conv_Cons map_Suc_upt del: upt_Suc)
  then show ?case
    using Cons.IH [of "Suc n"] by (simp add: NewSpanID_def generateID_def comp_def del: upt_Suc)
qed

subsection \<open>The send time without wrap-around\<close>

lemma sint_word_of_int_in_range:
  "- (2 ^ 63) \<le> k \<Longrightarrow> k < 2 ^ 63 \<Longrightarrow> sint (word_of_int k :: int64) = k"
  by (simp add: sint_sbintrunc' signed_take_bit_int_eq_self)

lemma sdiv_nonneg_million: "0 \<le> k \<Longrightarrow> k sdiv 1000000 = k div (1000000 :: int)"
  by (simp add: signed_divide_int_def sgn_if)

lemma sendFits_duration:
  assumes "sendFits startTime d"
  shows "- (2 ^ 63) \<le> truncate_toward_zero d \<and> truncate_toward_zero d < 2 ^ 63"
proof -
  have a: "0 \<le> startTime div 1000000" "startTime div 1000000 * 1000000 \<le> startTime"
    using assms by (simp_all add: sendFits_def pos_imp_zdiv_nonneg_iff)
  show ?thesis
    using assms a by (simp add: sendFits_def fitsInt64_def)
qed

lemma sendTime_fits:
  assumes "sendFits startTime d"
  shows "sendTime oor startTime d = (startTime div 1000000 + truncate_toward_zero d) * 1000000"
proof -
  have st: "0 \<le> startTime" "- (2 ^ 63) \<le> startTime" "startTime < 2 ^ 63"
    and pr: "- (2 ^ 63) \<le> (startTime div 1000000 + truncate_toward_zero d) * 1000000"
            "(startTime div 1000000 + truncate_toward_zero d) * 1000000 < 2 ^ 63"
    using assms by (simp_all add: sendFits_def fitsInt64_def)
  have s: "sint (UnixNano startTime) = startTime"
    using st by (simp add: UnixNano_def sint_word_of_int_in_range)
  have c: "int64_of_float64 oor d = word_of_int (truncate_toward_zero d)"
    using sendFits_duration [OF assms] by (simp add: int64_of_float64_def)
  have "(int64_div (UnixNano startTime) 1000000 + int64_of_float64 oor d) * 1000000
        = (word_of_int ((startTime div 1000000 + truncate_toward_zero d) * 1000000) :: int64)"
    using st(1) by (simp add: int64_div_def s c sdiv_nonneg_million)
  then have "sendTime oor startTime d
        = sint (word_of_int ((startTime div 1000000 + truncate_toward_zero d) * 1000000) :: int64)"
    by (simp only: sendTime_def Unix0_def Let_def)
  also have "\<dots> = (startTime div 1000000 + truncate_toward_zero d) * 1000000"
    using pr by (rule sint_word_of_int_in_range)
  finally show ?thesis .
qed

lemma sendFits_submilli:
  assumes "0 \<le> startTime" "startTime < 2 ^ 63" "0 \<le> d" "d < 1"
  shows "sendFits startTime d" "truncate_toward_zero d = 0"
proof -
  show t: "truncate_toward_zero d = 0"
    using assms by (simp add: truncate_toward_zero_def floor_eq_iff)
  have "0 \<le> startTime div 1000000 * 1000000" "startTime div 1000000 * 1000000 \<le> startTime"
    using assms by (simp_all add: pos_imp_zdiv_nonneg_iff)
  then show "sendFits startTime d"
    using assms t by (simp add: sendFits_def fitsInt64_def)
qed


lemma sendTime_scenario:
  "sendTime oor exampleStart 150 = 1150000000" "sendTime oor exampleStart 10 = 1010000000"
  by (simp_all add: sendTime_def int64_of_float64_def truncate_toward_zero_def int64_div_def
        UnixNano_def Unix0_def signed_divide_int_def exampleStart_def)

subsection \<open>Entries without a name\<close>

text \<open>
  C1, as stated, fails: the handler has no test for an empty name, and the batch of the
  scenario yields two child spans, not one.
\<close>

theorem C1_counterexample:
  "length (recorded (Endpoint exampleGen exampleOor (scenarioBatch, None) exampleStart)) = 2"
  by (simp add: Endpoint_recorded Endpoint_loop_length) (simp add: scenarioBatch_def)

text \<open>
  C1, amended: every entry of the batch is recorded, under its name and with its name as
  the request URI, so an entry with an empty name yields a span like any other, and the
  spans with an empty URI are as many as the entries with an empty name. For the batch of
  the scenario the handler records two spans: the one the specification describes for
  \<^verbatim>\<open>a.js\<close>, and one for the entry without a name.
\<close>

theorem C1_empty_name_recorded:
  "map (\<lambda>r. (RecName r, URI (Request (RecEvent r))))
       (recorded (Endpoint gen oor (t, err) startTime)) = map (\<lambda>ti. (Name ti, Name ti)) t
   \<and> length (filter (\<lambda>r. URI (Request (RecEvent r)) = [])
         (recorded (Endpoint gen oor (t, err) startTime))) = length (filter MalformedEntry t)
   \<and> map (\<lambda>r. (ServerRecv (RecEvent r), ServerSend (RecEvent r), Route (RecEvent r),
                 URI (Request (RecEvent r))))
        (recorded (Endpoint gen oor (scenarioBatch, err) exampleStart))
      = [(1000000000, 1150000000, ''script'', ''a.js''), (1000000000, 1010000000, ''img'', [])]"
proof (intro conjI)
  show m: "map (\<lambda>r. (RecName r, URI (Request (RecEvent r))))
       (recorded (Endpoint gen oor (t, err) startTime)) = map (\<lambda>ti. (Name ti, Name ti)) t"
    by (simp add: Endpoint_recorded Endpoint_loop_names_uris)
  have "map (\<lambda>r. URI (Request (RecEvent r))) (recorded (Endpoint gen oor (t, err) startTime))
          = map Name t"
    using arg_cong [OF m, of "map snd"] by (simp add: comp_def)
  then have "length (filter (\<lambda>u. u = []) (map (\<lambda>r. URI (Request (RecEvent r)))
                 (recorded (Endpoint gen oor (t, err) startTime))))
          = length (filter (\<lambda>u. u = []) (map Name t))"
    by simp
  then show "length (filter (\<lambda>r. URI (Request (RecEvent r)) = [])
         (recorded (Endpoint gen oor (t, err) startTime))) = length (filter MalformedEntry t)"
    by (simp add: filter_map comp_def MalformedEntry_def [abs_def])
  show "map (\<lambda>r. (ServerRecv (RecEvent r), ServerSend (RecEvent r), Route (RecEvent r),
                 URI (Request (RecEvent r))))
        (recorded (Endpoint gen oor (scenarioBatch, err) exampleStart))
      = [(1000000000, 1150000000, ''script'', ''a.js''), (1000000000, 1010000000, ''img'', [])]"
    by (simp add: Endpoint_recorded scenarioBatch_def exampleEntry_def NewSpanID_def
          generateID_def entryEvent_def NewServerEvent_def zeroRequestInfo_def sendTime_scenario)
       (simp add: exampleStart_def)
qed

subsection \<open>Identifiers of a batch\<close>

text \<open>
  C4, as stated, fails in its count: the batch whose only entry has no name has no
  well-formed entry, and the handler records one child span for it.
\<close>

theorem C4_counterexample:
  "length (recorded (Endpoint exampleGen exampleOor (badBatch, None) exampleStart)) = 1
   \<and> length (filter (\<lambda>ti. \<not> MalformedEntry ti) badBatch) = 0"
  by (simp add: Endpoint_recorded Endpoint_loop_length)
     (simp add: badBatch_def MalformedEntry_def exampleEntry_def)

text \<open>
  C4, amended: the handler draws one root identifier for the whole batch (the first two
  values of the generator) and records one child span for every entry of the batch, named
  or not, in input order; the child of entry \<open>i\<close> has the root's trace identifier, the
  next value of the generator as its own identifier, and the root's span identifier as its
  parent.
\<close>

theorem C4_one_root_one_child_per_entry:
  "traceID (Endpoint gen oor (t, err) startTime) = \<lparr>Trace = gen 0, Span = gen 1, Parent = 0\<rparr>
   \<and> map RecSpanID (recorded (Endpoint gen oor (t, err) startTime))
       = map (\<lambda>i. \<lparr>Trace = Trace (traceID (Endpoint gen oor (t, err) startTime)),
                    Span = gen (2 + i),
                    Parent = Span (traceID (Endpoint gen oor (t, err) startTime))\<rparr>)
             [0..<length t]"
proof -
  have r: "traceID (Endpoint gen oor (t, err) startTime)
             = \<lparr>Trace = gen 0, Span = gen 1, Parent = 0\<rparr>"
    by (simp add: Endpoint_def NewRootSpanID_def generateID_def)
  show ?thesis
    unfolding r by (simp add: Endpoint_recorded Endpoint_loop_ids)
qed

subsection \<open>Receive time and fixed fields\<close>

text \<open>
  C5: all spans built from one batch carry the same receive time, the clock value
  \<open>startTime\<close> that the handler reads once before its loop.
\<close>

theorem C5_shared_recv:
  "map (\<lambda>r. ServerRecv (RecEvent r)) (recorded (Endpoint gen oor (t, err) startTime))
     = replicate (length t) startTime"
  by (simp add: Endpoint_recorded Endpoint_loop_events entryEvent_def map_replicate_const)

text \<open>
  C6: for every entry, the span's route is the entry's \<^verbatim>\<open>InitiatorType\<close>, its request
  URI the entry's \<^verbatim>\<open>Name\<close>, its method the constant \<^verbatim>\<open>GET\<close> and its response status
  the constant 200, whatever the entry's other fields are.
\<close>

theorem C6_fixed_fields:
  "map (\<lambda>r. (Route (RecEvent r), URI (Request (RecEvent r)), Method (Request (RecEvent r)),
              StatusCode (Response (RecEvent r))))
       (recorded (Endpoint gen oor (t, err) startTime))
     = map (\<lambda>ti. (InitiatorType ti, Name ti, ''GET'', 200)) t"
  using Endpoint_loop_events [where g = "\<lambda>e. (Route e, URI (Request e), Method (Request e),
      StatusCode (Response e))"]
  by (simp add: Endpoint_recorded entryEvent_def zeroRequestInfo_def zeroResponseInfo_def)

subsection \<open>A body that does not decode\<close>

text \<open>
  C7, as stated, fails: when the decoder returns an error and has filled part of the
  slice, the handler still records a span for each entry it finds there.
\<close>

theorem C7_counterexample:
  "length (recorded (Endpoint exampleGen exampleOor (partialBatch, Some typeError) exampleStart)) = 1"
  by (simp add: Endpoint_recorded Endpoint_loop_length) (simp add: partialBatch_def)

text \<open>
  C7, amended: when the decoder returns an error the handler logs it, does not propagate
  it and completes as it does without the error: it records one span for each entry the
  decoder left in the slice, so it records no span exactly when that slice is empty.
\<close>

theorem C7_error_logged_and_ignored:
  "logged (Endpoint gen oor (t, Some msg) startTime) = [''erooror '' @ msg]
   \<and> recorded (Endpoint gen oor (t, Some msg) startTime)
       = recorded (Endpoint gen oor (t, None) startTime)
   \<and> length (recorded (Endpoint gen oor (t, Some msg) startTime)) = length t
   \<and> (recorded (Endpoint gen oor (t, Some msg) startTime) = [] \<longleftrightarrow> t = [])"
proof -
  have l: "length (recorded (Endpoint gen oor (t, Some msg) startTime)) = length t"
    by (simp add: Endpoint_recorded Endpoint_loop_length)
  have "logged (Endpoint gen oor (t, Some msg) startTime) = [''erooror '' @ msg]"
    by (simp add: Endpoint_def NewRootSpanID_def generateID_def)
  moreover have "recorded (Endpoint gen oor (t, Some msg) startTime)
       = recorded (Endpoint gen oor (t, None) startTime)"
    by (simp add: Endpoint_recorded)
  moreover have "recorded (Endpoint gen oor (t, Some msg) startTime) = [] \<longleftrightarrow> t = []"
    using l by (metis length_0_conv)
  ultimately show ?thesis using l by simp
qed

subsection \<open>Send time of a span\<close>

lemma Endpoint_loop_times:
  "map (\<lambda>r. (ServerRecv (RecEvent r), ServerSend (RecEvent r)))
       (Endpoint_loop gen oor rid startTime n t)
     = map (\<lambda>ti. (startTime, sendTime oor startTime (EndTime ti))) t"
  by (induction t arbitrary: n) (simp_all add: NewSpanID_def generateID_def entryEvent_def)

lemma Endpoint_times:
  "map (\<lambda>r. (ServerRecv (RecEvent r), ServerSend (RecEvent r)))
       (recorded (Endpoint gen oor (t, err) startTime))
     = map (\<lambda>ti. (startTime, sendTime oor startTime (EndTime ti))) t"
  by (simp add: Endpoint_recorded Endpoint_loop_times)

lemmas sendTime_eval = sendTime_def int64_of_float64_def truncate_toward_zero_def int64_div_def
  UnixNano_def Unix0_def signed_divide_int_def

lemma Endpoint_times_fits:
  assumes "\<forall>ti \<in> set t. sendFits startTime (EndTime ti)"
  shows "map (\<lambda>r. (ServerRecv (RecEvent r), ServerSend (RecEvent r)))
           (recorded (Endpoint gen oor (t, err) startTime))
         = map (\<lambda>ti. (startTime,
               (startTime div 1000000 + truncate_toward_zero (EndTime ti)) * 1000000)) t"
proof -
  have "map (\<lambda>ti. (startTime, sendTime oor startTime (EndTime ti))) t
         = map (\<lambda>ti. (startTime,
               (startTime div 1000000 + truncate_toward_zero (EndTime ti)) * 1000000)) t"
    using assms by (simp add: sendTime_fits)
  then show ?thesis
    unfolding Endpoint_times .
qed

lemma map_times:
  assumes "map (\<lambda>r. (ServerRecv (RecEvent r), ServerSend (RecEvent r))) rs
             = map (\<lambda>ti. (a, f ti)) t"
  shows "map (\<lambda>r. h (ServerRecv (RecEvent r)) (ServerSend (RecEvent r))) rs
             = map (\<lambda>ti. h a (f ti)) t"
proof -
  have "map (\<lambda>p. h (fst p) (snd p))
          (map (\<lambda>r. (ServerRecv (RecEvent r), ServerSend (RecEvent r))) rs)
        = map (\<lambda>p. h (fst p) (snd p)) (map (\<lambda>ti. (a, f ti)) t)"
    by (simp only: assms)
  then show ?thesis
    by (simp only: map_map comp_def fst_conv snd_conv)
qed














text \<open>
  C10, as stated, fails in its \<open>always\<close>: for a duration of \<open>10 ^ 13\<close> ms at a present-day
  clock reading, the product in line 309 exceeds the range of \<^verbatim>\<open>int64\<close> and wraps
  around, and the send time is not a whole number of milliseconds.
\<close>

theorem C10_counterexample:
  "map (\<lambda>r. ServerSend (RecEvent r) mod 1000000)
       (recorded (Endpoint exampleGen exampleOor (hugeBatch, None) presentStart))
     = [448384]"
  using map_times [OF Endpoint_times [of exampleGen exampleOor hugeBatch None presentStart],
     of "\<lambda>a b. b mod 1000000"]
  by (simp add: hugeBatch_def exampleEntry_def presentStart_def sendTime_eval)

text \<open>
  C10, amended: when the 64-bit arithmetic does not wrap around, the send time of every
  span is a whole number of milliseconds, namely the start time truncated to whole
  milliseconds plus the duration truncated towards zero, while recv keeps the start time
  to the nanosecond; and whenever the start time (from 1970 on, within the range of
  \<^verbatim>\<open>int64\<close>) is not a whole number of milliseconds and the durations lie in \<open>[0, 1)\<close>,
  every send time is strictly earlier than the receive time.
\<close>

theorem C10_send_on_millisecond_boundary:
  "((\<forall>ti \<in> set t. sendFits startTime (EndTime ti)) \<longrightarrow>
      map (\<lambda>r. (ServerRecv (RecEvent r), ServerSend (RecEvent r) mod 1000000,
                 ServerSend (RecEvent r) div 1000000))
          (recorded (Endpoint gen oor (t, err) startTime))
        = map (\<lambda>ti. (startTime, 0, startTime div 1000000 + truncate_toward_zero (EndTime ti))) t)
   \<and> (0 \<le> startTime \<and> startTime < 2 ^ 63 \<and> startTime mod 1000000 \<noteq> 0
        \<and> (\<forall>ti \<in> set t. 0 \<le> EndTime ti \<and> EndTime ti < 1) \<longrightarrow>
      (\<forall>r \<in> set (recorded (Endpoint gen oor (t, err) startTime)).
          ServerSend (RecEvent r) < ServerRecv (RecEvent r)))"
proof (intro conjI impI)
  assume f: "\<forall>ti \<in> set t. sendFits startTime (EndTime ti)"
  show "map (\<lambda>r. (ServerRecv (RecEvent r), ServerSend (RecEvent r) mod 1000000,
                 ServerSend (RecEvent r) div 1000000))
          (recorded (Endpoint gen oor (t, err) startTime))
        = map (\<lambda>ti. (startTime, 0, startTime div 1000000 + truncate_toward_zero (EndTime ti))) t"
    using map_times [OF Endpoint_times_fits [OF f, of gen oor err],
        of "\<lambda>a b. (a, b mod 1000000, b div 1000000)"]
    by simp
next
  assume h: "0 \<le> startTime \<and> startTime < 2 ^ 63 \<and> startTime mod 1000000 \<noteq> 0
        \<and> (\<forall>ti \<in> set t. 0 \<le> EndTime ti \<and> EndTime ti < 1)"
  have z: "sendFits startTime (EndTime ti) \<and> truncate_toward_zero (EndTime ti) = 0"
    if "ti \<in> set t" for ti
    using h that sendFits_submilli [of startTime "EndTime ti"] by blast
  then have f: "\<forall>ti \<in> set t. sendFits startTime (EndTime ti)"
    by blast
  have lt: "startTime div 1000000 * 1000000 < startTime"
    using h mod_mult_div_eq [of startTime 1000000]
      pos_mod_sign [of 1000000 startTime] by linarith
  have "map (\<lambda>r. ServerSend (RecEvent r) < ServerRecv (RecEvent r))
          (recorded (Endpoint gen oor (t, err) startTime))
        = map (\<lambda>ti. (startTime div 1000000 + truncate_toward_zero (EndTime ti)) * 1000000
                       < startTime) t"
    using map_times [OF Endpoint_times_fits [OF f, of gen oor err], of "\<lambda>a b. b < a"] .
  also have "\<dots> = map (\<lambda>ti. True) t"
    using z lt by simp
  finally have "\<forall>x \<in> set (map (\<lambda>r. ServerSend (RecEvent r) < ServerRecv (RecEvent r))
          (recorded (Endpoint gen oor (t, err) startTime))). x"
    by simp
  then show "\<forall>r \<in> set (recorded (Endpoint gen oor (t, err) startTime)).
          ServerSend (RecEvent r) < ServerRecv (RecEvent r)"
    by simp
qed

text \<open>
  The amended C10 at a start time 500 ns after a whole millisecond and a duration of half
  a millisecond: send is 1000 ms sharp, 500 ns before recv.
\<close>

theorem C10_send_on_millisecond_boundary_witness:
  "list_all (\<lambda>ti. sendFits subMilliStart (EndTime ti)) subMilliBatch
   \<and> 0 \<le> subMilliStart \<and> subMilliStart < 2 ^ 63 \<and> subMilliStart mod 1000000 \<noteq> 0
   \<and> list_all (\<lambda>ti. 0 \<le> EndTime ti \<and> EndTime ti < 1) subMilliBatch
   \<and> map (\<lambda>r. (ServerRecv (RecEvent r), ServerSend (RecEvent r) mod 1000000,
                 ServerSend (RecEvent r) div 1000000))
          (recorded (Endpoint exampleGen exampleOor (subMilliBatch, None) subMilliStart))
        = [(1000000500, 0, 1000)]
   \<and> list_all (\<lambda>r. ServerSend (RecEvent r) < ServerRecv (RecEvent r))
         (recorded (Endpoint exampleGen exampleOor (subMilliBatch, None) subMilliStart))"
proof -
  have f: "\<forall>ti \<in> set subMilliBatch. sendFits subMilliStart (EndTime ti)"
    by (simp add: subMilliBatch_def exampleEntry_def sendFits_def fitsInt64_def
          truncate_toward_zero_def subMilliStart_def)
  have h: "0 \<le> subMilliStart \<and> subMilliStart < 2 ^ 63 \<and> subMilliStart mod 1000000 \<noteq> 0
        \<and> (\<forall>ti \<in> set subMilliBatch. 0 \<le> EndTime ti \<and> EndTime ti < 1)"
    by (simp add: subMilliBatch_def exampleEntry_def subMilliStart_def)
  have e: "map (\<lambda>ti. (subMilliStart, 0 :: int,
                subMilliStart div 1000000 + truncate_toward_zero (EndTime ti))) subMilliBatch
           = [(1000000500, 0, 1000)]"
    by (simp add: subMilliBatch_def exampleEntry_def truncate_toward_zero_def subMilliStart_def)
  show ?thesis
    unfolding list_all_iff
    using f h e
      C10_send_on_millisecond_boundary [of subMilliBatch subMilliStart exampleGen exampleOor None]
    by simp
qed

section \<open>Properties of the evicting store\<close>

lemma applyOp_absent:
  "st k = None \<Longrightarrow> \<not> collectsFor k x \<Longrightarrow> applyOp x st k = None"
  by (cases x) (auto simp: Collect_span_def Evict_def Let_def)

lemma runOps_absent:
  "st k = None \<Longrightarrow> \<forall>x \<in> set xs. \<not> collectsFor k x \<Longrightarrow> runOps xs st k = None"
  by (induction xs arbitrary: st) (simp_all add: applyOp_absent)

text \<open>
  C8: \<^verbatim>\<open>Evict\<close> removes exactly the buckets older than \<^verbatim>\<open>minAge\<close> relative to
  \<^verbatim>\<open>now\<close> and leaves the spans of the others as they are; and eviction is monotonic:
  a trace evicted by a sweep is absent from \<^verbatim>\<open>Traces()\<close> right after it and after any
  further operations on the store among which there is no \<^verbatim>\<open>Collect\<close> for that trace.
\<close>

theorem C8_eviction_monotonic:
  "Traces (Evict now minAge st) k
     = (case st k of None \<Rightarrow> None
        | Some b \<Rightarrow> if olderThan now minAge b then None else Some (spans b))
   \<and> (st k = Some b \<and> olderThan now minAge b \<and> (\<forall>x \<in> set xs. \<not> collectsFor k x) \<longrightarrow>
        Traces (Evict now minAge st) k = None
        \<and> Traces (runOps xs (Evict now minAge st)) k = None)"
proof (intro conjI impI)
  show "Traces (Evict now minAge st) k
     = (case st k of None \<Rightarrow> None
        | Some b \<Rightarrow> if olderThan now minAge b then None else Some (spans b))"
    by (simp add: Traces_def Evict_def split: option.split)
next
  assume h: "st k = Some b \<and> olderThan now minAge b \<and> (\<forall>x \<in> set xs. \<not> collectsFor k x)"
  then have e: "Evict now minAge st k = None"
    by (simp add: Evict_def)
  then show "Traces (Evict now minAge st) k = None"
    by (simp add: Traces_def)
  from e h have "runOps xs (Evict now minAge st) k = None"
    by (simp add: runOps_absent)
  then show "Traces (runOps xs (Evict now minAge st)) k = None"
    by (simp add: Traces_def)
qed

text \<open>
  C8 at the store of the specification's scenario, with \<^verbatim>\<open>minEvictAge\<close> of 5 s and a
  trace inserted at time 0: a sweep at 3 s keeps it; after a sweep at 6 s it is absent,
  and stays so through a later sweep and a \<^verbatim>\<open>Collect\<close> for another trace.
\<close>

theorem C8_eviction_monotonic_witness:
  "Collect_span 0 (storeSpan 7 8) Map.empty 7
      = Some \<lparr>spans = [storeSpan 7 8], insertedAt = 0\<rparr>
   \<and> olderThan (seconds 6) (seconds 5) \<lparr>spans = [storeSpan 7 8], insertedAt = 0\<rparr>
   \<and> list_all (\<lambda>x. \<not> collectsFor 7 x)
         [OpEvict (seconds 7) (seconds 5), OpCollect (seconds 8) (storeSpan 9 10)]
   \<and> Traces (Evict (seconds 3) (seconds 5) (Collect_span 0 (storeSpan 7 8) Map.empty)) 7
        = Some [storeSpan 7 8]
   \<and> Traces (runOps [OpEvict (seconds 7) (seconds 5), OpCollect (seconds 8) (storeSpan 9 10)]
        (Evict (seconds 6) (seconds 5) (Collect_span 0 (storeSpan 7 8) Map.empty))) 7 = None"
proof -
  have a: "Collect_span 0 (storeSpan 7 8) Map.empty 7
      = Some \<lparr>spans = [storeSpan 7 8], insertedAt = 0\<rparr>"
    by (simp add: Collect_span_def storeSpan_def)
  have b: "olderThan (seconds 6) (seconds 5) \<lparr>spans = [storeSpan 7 8], insertedAt = 0\<rparr>"
    by (simp add: olderThan_def seconds_def)
  have c: "\<forall>x \<in> set [OpEvict (seconds 7) (seconds 5), OpCollect (seconds 8) (storeSpan 9 10)].
         \<not> collectsFor 7 x"
    by (simp add: storeSpan_def)
  have d: "\<not> olderThan (seconds 3) (seconds 5) \<lparr>spans = [storeSpan 7 8], insertedAt = 0\<rparr>"
    by (simp add: olderThan_def seconds_def)
  have e: "Traces (Evict (seconds 3) (seconds 5) (Collect_span 0 (storeSpan 7 8) Map.empty)) 7
        = Some [storeSpan 7 8]"
    using C8_eviction_monotonic [where now = "seconds 3" and minAge = "seconds 5"
        and st = "Collect_span 0 (storeSpan 7 8) Map.empty" and k = 7] a d
    by simp
  show ?thesis
    unfolding list_all_iff
    using a b c e C8_eviction_monotonic [where st = "Collect_span 0 (storeSpan 7 8) Map.empty"
        and k = 7 and b = "\<lparr>spans = [storeSpan 7 8], insertedAt = 0\<rparr>"
        and now = "seconds 6" and minAge = "seconds 5"
        and xs = "[OpEvict (seconds 7) (seconds 5), OpCollect (seconds 8) (storeSpan 9 10)]"]
    by blast
qed

end
